theory Spec2Isabelle
  imports Complex_Main
begin

section \<open>Tensors\<close>

text \<open>
  The tensor library is an external collaborator of \<^verbatim>\<open>ipVcycle.cc\<close>. A
  \<^verbatim>\<open>DoubleTensor(h, w, 1)\<close> is modelled by its two sizes and its pixels, addressed by
  (row, column) as \<^verbatim>\<open>get(y, x, 0)\<close> and the pointer walks
  \<^verbatim>\<open>dat[y * stride_h + x * stride_w]\<close> address them. A \<^verbatim>\<open>double\<close> is modelled by a
  real number, so rounding, infinities and NaN are outside the model. An image dimension
  (a non-negative \<^verbatim>\<open>int\<close>) is a natural number, and products of dimensions are taken
  to fit an \<^verbatim>\<open>int\<close>; the comparisons the source makes on \<^verbatim>\<open>int\<close> (such as
  \<^verbatim>\<open>x == width-1\<close>) are made on integers. A tensor has no pixel outside its sizes: the
  model keeps 0 there, and a write outside the sizes of the tensor written, which the
  source never makes when \<^verbatim>\<open>height_\<close> and \<^verbatim>\<open>width_\<close> are the sizes of the right-hand
  side, changes nothing.
\<close>

type_synonym pixels = "nat \<Rightarrow> nat \<Rightarrow> real"
type_synonym coeffs = "nat \<Rightarrow> real"
type_synonym matrix = "nat \<Rightarrow> nat \<Rightarrow> real"

record DoubleTensor =
  size_0 :: nat
  size_1 :: nat
  get :: pixels

definition in_sizes :: "nat \<Rightarrow> nat \<Rightarrow> pixels \<Rightarrow> pixels" where
  "in_sizes h w p = (\<lambda>y x. if y < h \<and> x < w then p y x else 0)"

text \<open>Writing through \<^verbatim>\<open>dataW()\<close>: the sizes stay, the pixels inside them change.\<close>

definition dataW :: "DoubleTensor \<Rightarrow> pixels \<Rightarrow> DoubleTensor" where
  "dataW t p = t\<lparr>get := in_sizes (size_0 t) (size_1 t) p\<rparr>"

text \<open>\<^verbatim>\<open>t.fill(v)\<close> and \<^verbatim>\<open>t.copy(src)\<close>.\<close>

definition fill :: "DoubleTensor \<Rightarrow> real \<Rightarrow> DoubleTensor" where
  "fill t v = dataW t (\<lambda>y x. v)"

definition copy :: "DoubleTensor \<Rightarrow> DoubleTensor \<Rightarrow> DoubleTensor" where
  "copy t src = dataW t (get src)"

text \<open>
  The loop \<^verbatim>\<open>for (y < height) for (x < width) t(y, x) = f(y, x)\<close>, in which every
  pixel is written once and \<open>f\<close> reads the state before the loop.
\<close>

definition for_pixels :: "nat \<Rightarrow> nat \<Rightarrow> pixels \<Rightarrow> DoubleTensor \<Rightarrow> DoubleTensor" where
  "for_pixels height width f t =
     dataW t (\<lambda>y x. if y < height \<and> x < width then f y x else get t y x)"

text \<open>
  The loop \<^verbatim>\<open>for (y < height) for (x < width) acc += f(y, x)\<close>, started at 0.
\<close>

definition sum_pixels :: "nat \<Rightarrow> nat \<Rightarrow> pixels \<Rightarrow> real" where
  "sum_pixels height width f =
     fold (\<lambda>y acc. fold (\<lambda>x acc. acc + f y x) [0..<width] acc) [0..<height] 0"

section \<open>The collaborators of the V-cycle\<close>

text \<open>
  \<^verbatim>\<open>ip/multigrid.h\<close> (\<^verbatim>\<open>buildOperator\<close>, \<^verbatim>\<open>gaussSeidel\<close>, \<^verbatim>\<open>myMultiply\<close>,
  \<^verbatim>\<open>restriction\<close>, \<^verbatim>\<open>project\<close>), LAPACK's \<^verbatim>\<open>dgesv_\<close> and \<^verbatim>\<open>ipRescaleGray\<close> are
  not among the sources, so they are parameters of the model. Each takes what the call
  passes, the destination tensor included, and gives what it leaves in the tensors it
  writes: the smoother the new pixels of its first argument and the coefficient set,
  the multiplier those of \<^verbatim>\<open>temp\<close>, the transfer operators those of their second
  argument. None of them has a way to report a failure to \<^verbatim>\<open>mgv\<close> except
  \<^verbatim>\<open>dgesv_\<close>, through \<^verbatim>\<open>info\<close>, and \<^verbatim>\<open>ipRescaleGray::process\<close>, through its result.
  \<open>new_data\<close>, \<open>new_rho\<close> and \<open>new_short\<close> are the contents of a tensor that
  \<^verbatim>\<open>new\<close> has allocated and nobody has written. \<open>USE_CBLAS\<close> is the preprocessor
  symbol of that name.
\<close>

record collaborators =
  new_data :: pixels
  new_rho :: coeffs
  new_short :: "nat \<Rightarrow> nat \<Rightarrow> int"
  USE_CBLAS :: bool
  dgesv :: "nat \<Rightarrow> matrix \<Rightarrow> pixels \<Rightarrow> int \<times> pixels"
  buildOperator :: "nat \<Rightarrow> coeffs \<Rightarrow> real \<Rightarrow> int \<Rightarrow> DoubleTensor \<Rightarrow> matrix \<times> coeffs"
  gaussSeidel :: "DoubleTensor \<Rightarrow> DoubleTensor \<Rightarrow> coeffs \<Rightarrow> real \<Rightarrow> int \<Rightarrow> pixels \<times> coeffs"
  myMultiply :: "DoubleTensor \<Rightarrow> DoubleTensor \<Rightarrow> coeffs \<Rightarrow> real \<Rightarrow> int \<Rightarrow> pixels \<times> coeffs"
  restriction :: "DoubleTensor \<Rightarrow> DoubleTensor \<Rightarrow> pixels"
  project :: "DoubleTensor \<Rightarrow> DoubleTensor \<Rightarrow> pixels"
  ipRescaleGray :: "DoubleTensor \<Rightarrow> bool \<times> (nat \<Rightarrow> nat \<Rightarrow> int)"

definition new_DoubleTensor :: "collaborators \<Rightarrow> nat \<Rightarrow> nat \<Rightarrow> DoubleTensor" where
  "new_DoubleTensor mg h w = \<lparr>size_0 = h, size_1 = w, get = in_sizes h w (new_data mg)\<rparr>"

section \<open>The instance\<close>

datatype Datatype = Char_t | Short | Int_t | Long_t | Float_t | Double_t

text \<open>
  The input and output tensors of the operator: the number of dimensions, the data type,
  the sizes, and the 16-bit values of plane 0, by (row, column).
\<close>

record Tensor =
  nDimension :: nat
  getDatatype :: Datatype
  sizes :: "nat \<Rightarrow> nat"
  short_data :: "nat \<Rightarrow> nat \<Rightarrow> int"

text \<open>
  The members \<^verbatim>\<open>n_grids_\<close>, \<^verbatim>\<open>height_\<close> and \<^verbatim>\<open>width_\<close> (a name cannot end with an
  underscore here), the three options of the constructor, and \<^verbatim>\<open>m_output\<close>, which is
  \<open>None\<close> for the null pointer.
\<close>

record ipVcycle =
  this_n_grids :: int
  this_height :: nat
  this_width :: nat
  lambda_option :: real
  n_grids_option :: int
  type_option :: int
  m_output :: "Tensor option"

datatype error = LapackError int | CheckFatal

section \<open>\<^verbatim>\<open>ipVcycle::mgv\<close>\<close>

text \<open>Line 234: the test the coarsest level makes, with \<^verbatim>\<open>width\<close> in its last disjunct.\<close>

definition is_on_boundary :: "nat \<Rightarrow> nat \<Rightarrow> nat \<Rightarrow> bool" where
  "is_on_boundary width x y =
     (int x = 0 \<or> int x = int width - 1 \<or> int y = 0 \<or> int y = int width - 1)"

text \<open>
  Lines 219 to 226: \<^verbatim>\<open>info\<close> starts at 0 and \<^verbatim>\<open>dgesv_\<close>, called only under
  \<^verbatim>\<open>USE_CBLAS\<close>, overwrites it and the right-hand side.
\<close>

definition direct_solver :: "collaborators \<Rightarrow> nat \<Rightarrow> matrix \<Rightarrow> pixels \<Rightarrow> int \<times> pixels" where
  "direct_solver mg N diffOperator d_result =
     (if USE_CBLAS mg then dgesv mg N diffOperator d_result else (0, d_result))"

text \<open>
  Lines 203 to 242, the coarsest level: build the operator, copy \<open>b_v\<close> into the result,
  solve in place, stop on \<^verbatim>\<open>info != 0\<close> (\<^verbatim>\<open>error\<close> does not return), clear the boundary.
\<close>

definition mgv_solve ::
  "collaborators \<Rightarrow> ipVcycle \<Rightarrow> DoubleTensor \<Rightarrow> real \<Rightarrow> int \<Rightarrow> DoubleTensor \<Rightarrow> coeffs
     \<Rightarrow> error + DoubleTensor \<times> ipVcycle" where
  "mgv_solve mg st b_v lambda type result rho =
    (let height = size_0 b_v;
         width = size_1 b_v;
         N = this_width st * this_height st;
         (diffOperator, rho1) = buildOperator mg N rho lambda type b_v;
         result1 = copy result b_v;
         (info, d_result) = direct_solver mg N diffOperator (get result1);
         result2 = dataW result1 d_result
     in if info \<noteq> 0 then Inl (LapackError info)
        else Inr (for_pixels height width
                    (\<lambda>y x. if is_on_boundary width x y then 0 else get result2 y x) result2,
                  st))"

text \<open>
  Lines 245 to 277, the way down: pre-smooth \<open>x_v\<close> in place, multiply, subtract from
  \<open>b_v\<close>, restrict, halve the members, make the zero guess. The block gives the smoothed
  \<open>x_v\<close>, the coefficient set, and the arguments of the recursive call.
\<close>

definition mgv_down ::
  "collaborators \<Rightarrow> ipVcycle \<Rightarrow> DoubleTensor \<Rightarrow> DoubleTensor \<Rightarrow> real \<Rightarrow> int \<Rightarrow> coeffs
     \<Rightarrow> DoubleTensor \<times> coeffs \<times> ipVcycle \<times> DoubleTensor \<times> DoubleTensor" where
  "mgv_down mg st x_v b_v lambda type rho =
    (let height = size_0 b_v;
         width = size_1 b_v;
         (x1, rho1) = gaussSeidel mg x_v b_v rho lambda type;
         x_v1 = dataW x_v x1;
         temp0 = new_DoubleTensor mg (this_height st) (this_width st);
         (t1, rho2) = myMultiply mg x_v1 temp0 rho1 lambda type;
         temp1 = dataW temp0 t1;
         temp = for_pixels height width (\<lambda>y x. get b_v y x - get temp1 y x) temp1;
         rhat0 = new_DoubleTensor mg (this_height st div 2) (this_width st div 2);
         rhat = dataW rhat0 (restriction mg temp rhat0);
         st1 = st\<lparr>this_width := this_width st div 2, this_height := this_height st div 2\<rparr>;
         zero = fill (new_DoubleTensor mg (this_height st1) (this_width st1)) 0
     in (x_v1, rho2, st1, zero, rhat))"

text \<open>
  Lines 281 to 310, the way up, on what the recursive call returned: interpolate, double
  the members, add over \<^verbatim>\<open>height_\<close> by \<^verbatim>\<open>width_\<close>, post-smooth.
\<close>

definition mgv_up ::
  "collaborators \<Rightarrow> DoubleTensor \<Rightarrow> DoubleTensor \<Rightarrow> real \<Rightarrow> int \<Rightarrow> DoubleTensor \<Rightarrow> coeffs
     \<Rightarrow> DoubleTensor \<Rightarrow> ipVcycle \<Rightarrow> DoubleTensor \<times> ipVcycle" where
  "mgv_up mg x_v1 b_v lambda type result rho2 xhat st2 =
    (let xcorr0 = new_DoubleTensor mg (this_height st2 * 2) (this_width st2 * 2);
         xcorr = dataW xcorr0 (project mg xhat xcorr0);
         st3 = st2\<lparr>this_width := this_width st2 * 2, this_height := this_height st2 * 2\<rparr>;
         result1 = for_pixels (this_height st3) (this_width st3)
                     (\<lambda>y x. get x_v1 y x + get xcorr y x) result;
         (r1, rho3) = gaussSeidel mg result1 b_v rho2 lambda type
     in (dataW result1 r1, st3))"

text \<open>
  \<^verbatim>\<open>mgv\<close> itself. It returns \<open>None\<close> when the recursion never reaches
  \<^verbatim>\<open>level == n_grids_-1\<close>, \<open>Some (Inl e)\<close> when \<^verbatim>\<open>error\<close> stopped the program, and
  otherwise the result tensor with the instance as the call leaves it.
\<close>

partial_function (option) mgv ::
  "collaborators \<Rightarrow> ipVcycle \<Rightarrow> DoubleTensor \<Rightarrow> DoubleTensor \<Rightarrow> real \<Rightarrow> int \<Rightarrow> int
     \<Rightarrow> (error + DoubleTensor \<times> ipVcycle) option" where
  "mgv mg st x_v b_v lambda level type =
    (let result = new_DoubleTensor mg (this_height st) (this_width st);
         rho = new_rho mg
     in if level = this_n_grids st - 1 then Some (mgv_solve mg st b_v lambda type result rho)
        else
          (let (x_v1, rho2, st1, zero, rhat) = mgv_down mg st x_v b_v lambda type rho
           in Option.bind (mgv mg st1 zero rhat lambda (level + 1) type) (\<lambda>r.
                case r of
                  Inl e \<Rightarrow> Some (Inl e)
                | Inr (xhat, st2) \<Rightarrow>
                    Some (Inr (mgv_up mg x_v1 b_v lambda type result rho2 xhat st2)))))"


section \<open>\<^verbatim>\<open>ipVcycle::cutExtremum\<close>\<close>

text \<open>
  Lines 329 to 363: the pixel count, the mean, the variance over \<^verbatim>\<open>wxh - 1\<close>, the standard
  deviation and the two bounds. The divisions are those of the real numbers: the model
  follows the source where \<^verbatim>\<open>wxh\<close> and \<^verbatim>\<open>wxh - 1\<close> are not 0.
\<close>

definition wxh :: "DoubleTensor \<Rightarrow> int" where
  "wxh data = int (size_1 data) * int (size_0 data)"

definition mean_out :: "DoubleTensor \<Rightarrow> real" where
  "mean_out data =
     sum_pixels (size_0 data) (size_1 data) (get data) / real_of_int (wxh data)"

definition var_out :: "DoubleTensor \<Rightarrow> real" where
  "var_out data =
     sum_pixels (size_0 data) (size_1 data)
       (\<lambda>y x. (get data y x - mean_out data) * (get data y x - mean_out data))
     / real_of_int (wxh data - 1)"

definition std_dev :: "DoubleTensor \<Rightarrow> real" where
  "std_dev data = sqrt (var_out data)"

definition mean_plus_dxstd :: "DoubleTensor \<Rightarrow> int \<Rightarrow> real" where
  "mean_plus_dxstd data distribution_width =
     mean_out data + real_of_int distribution_width * std_dev data"

definition mean_minus_dxstd :: "DoubleTensor \<Rightarrow> int \<Rightarrow> real" where
  "mean_minus_dxstd data distribution_width =
     mean_out data - real_of_int distribution_width * std_dev data"

text \<open>Lines 365 to 378: the cut, two tests in a row on each pixel, and \<^verbatim>\<open>return true\<close>.\<close>

definition cutExtremum :: "DoubleTensor \<Rightarrow> int \<Rightarrow> nat \<Rightarrow> bool \<times> DoubleTensor" where
  "cutExtremum data distribution_width p =
     (True,
      for_pixels (size_0 data) (size_1 data)
        (\<lambda>y x.
           let v = get data y x;
               v1 = (if v > mean_plus_dxstd data distribution_width
                     then mean_plus_dxstd data distribution_width else v)
           in if v1 < mean_minus_dxstd data distribution_width
              then mean_minus_dxstd data distribution_width else v1)
        data)"

section \<open>\<^verbatim>\<open>checkInput\<close>, \<^verbatim>\<open>allocateOutput\<close>, \<^verbatim>\<open>processInput\<close>\<close>

definition checkInput :: "Tensor \<Rightarrow> bool" where
  "checkInput input =
     (if nDimension input \<noteq> 3 \<or> getDatatype input \<noteq> Short then False else True)"

definition allocateOutput :: "collaborators \<Rightarrow> ipVcycle \<Rightarrow> Tensor \<Rightarrow> bool \<times> ipVcycle" where
  "allocateOutput mg st input =
     (if (case m_output st of
            None \<Rightarrow> True
          | Some out \<Rightarrow>
              nDimension out \<noteq> 3 \<or> sizes out 0 \<noteq> sizes input 0 \<or>
              sizes out 1 \<noteq> sizes input 1 \<or> sizes out 2 \<noteq> sizes input 2)
      then (True, st\<lparr>m_output := Some \<lparr>nDimension = 3, getDatatype = Short,
                        sizes = (\<lambda>i. if i < 3 then sizes input i else 0),
                        short_data = new_short mg\<rparr>\<rparr>)
      else if sizes input 2 \<noteq> 1 then (False, st)
      else (True, st))"

text \<open>
  Modelled from the spec: the macro \<^verbatim>\<open>IS_NEAR(var, value, delta)\<close> is not among the
  sources; "within an epsilon tolerance of" the value is read as the closed interval.
\<close>

definition IS_NEAR :: "real \<Rightarrow> real \<Rightarrow> real \<Rightarrow> bool" where
  "IS_NEAR var val delta = (val - delta \<le> var \<and> var \<le> val + delta)"

text \<open>Lines 144 to 158: build the final result \<open>R = I / L\<close>.\<close>

definition build_final_result ::
  "nat \<Rightarrow> nat \<Rightarrow> DoubleTensor \<Rightarrow> DoubleTensor \<Rightarrow> DoubleTensor \<Rightarrow> DoubleTensor" where
  "build_final_result height width image_grid light t_output_double =
     for_pixels height width
       (\<lambda>y x.
          if int y = 0 \<or> int y = int height - 1 \<or> int x = 0 \<or> int x = int width - 1 then 1
          else if IS_NEAR (get light y x) 0 (1 / 100) then 1
          else get image_grid y x / get light y x)
       t_output_double"

text \<open>
  Lines 103 to 137: the options, the members, the tensors. The block gives the
  instance, the zero guess, the image grid and the tensor of the non-rescaled output.
\<close>

definition processInput_prepare ::
  "collaborators \<Rightarrow> ipVcycle \<Rightarrow> Tensor
     \<Rightarrow> ipVcycle \<times> DoubleTensor \<times> DoubleTensor \<times> DoubleTensor" where
  "processInput_prepare mg st input =
    (let n_grids = n_grids_option st;
         st1 = st\<lparr>this_n_grids := n_grids\<rparr>;
         height = sizes input 0;
         width = sizes input 1;
         st2 = st1\<lparr>this_height := height, this_width := width\<rparr>;
         t_output_double = new_DoubleTensor mg height width;
         st3 = st2\<lparr>m_output :=
                 map_option (\<lambda>t. t\<lparr>short_data := (\<lambda>y x. 0)\<rparr>) (m_output st2)\<rparr>;
         image_grid = dataW (new_DoubleTensor mg height width)
                        (\<lambda>y x. real_of_int (short_data input y x));
         guess = fill (new_DoubleTensor mg height width) 0
     in (st3, guess, image_grid, t_output_double))"

text \<open>
  Lines 140 to 177. \<^verbatim>\<open>CHECK_FATAL\<close> stops the program when the rescaling reports a
  failure.
\<close>

definition processInput ::
  "collaborators \<Rightarrow> ipVcycle \<Rightarrow> Tensor \<Rightarrow> (error + bool \<times> ipVcycle) option" where
  "processInput mg st input =
    (let lambda = lambda_option st;
         type = type_option st;
         height = sizes input 0;
         width = sizes input 1;
         (st3, guess, image_grid, t_output_double) = processInput_prepare mg st input
     in Option.bind (mgv mg st3 guess image_grid lambda 0 type) (\<lambda>r.
          case r of
            Inl e \<Rightarrow> Some (Inl e)
          | Inr (light, st4) \<Rightarrow>
             (let t1 = build_final_result height width image_grid light t_output_double;
                  (b1, t2) = cutExtremum t1 4 0;
                  (ok, rescaled) = ipRescaleGray mg t2
              in if ok = True
                 then Some (Inr (True, st4\<lparr>m_output :=
                        map_option (\<lambda>t. t\<lparr>short_data := rescaled\<rparr>) (m_output st4)\<rparr>))
                 else Some (Inl CheckFatal))))"

text \<open>
  Modelled from the spec: \<^verbatim>\<open>ipCore::process\<close>, the entry point, is not among the
  sources. Invalid input is "rejected immediately at the entry point before any grid
  work begins", and \<^verbatim>\<open>processInput\<close> runs when "the input is checked, the outputs are
  allocated" (line 98): the entry point runs \<^verbatim>\<open>checkInput\<close>, then \<^verbatim>\<open>allocateOutput\<close>,
  and \<^verbatim>\<open>processInput\<close> only when both returned true.
\<close>

definition process ::
  "collaborators \<Rightarrow> ipVcycle \<Rightarrow> Tensor \<Rightarrow> (error + bool \<times> ipVcycle) option" where
  "process mg st input =
     (if checkInput input = False then Some (Inr (False, st))
      else (let (allocated, st1) = allocateOutput mg st input
            in if allocated = False then Some (Inr (False, st1))
               else processInput mg st1 input))"

text \<open>
  The calls of \<^verbatim>\<open>mgv\<close> that a run of \<^verbatim>\<open>processInput\<close> makes: the one of line 140 and,
  from a call that is not at the coarsest level, the one of line 279.
\<close>

inductive mgv_call ::
  "collaborators \<Rightarrow> real \<Rightarrow> int \<Rightarrow> ipVcycle \<Rightarrow> DoubleTensor \<Rightarrow> DoubleTensor \<Rightarrow> int \<Rightarrow> bool"
  for mg :: collaborators and lambda :: real and type :: int where
  line_140:
    "processInput_prepare mg st input = (st3, guess, image_grid, t_output_double) \<Longrightarrow>
     lambda = lambda_option st \<Longrightarrow> type = type_option st \<Longrightarrow>
     mgv_call mg lambda type st3 guess image_grid 0"
| line_279:
    "mgv_call mg lambda type st x_v b_v level \<Longrightarrow>
     level \<noteq> this_n_grids st - 1 \<Longrightarrow>
     mgv_down mg st x_v b_v lambda type (new_rho mg) = (x_v1, rho2, st1, zero, rhat) \<Longrightarrow>
     mgv_call mg lambda type st1 zero rhat (level + 1)"

section \<open>An instance of the collaborators\<close>

text \<open>
  The collaborators when the operator is the identity and the library is built without
  \<^verbatim>\<open>USE_CBLAS\<close>: the smoother copies the right-hand side into the interior, the
  multiplier copies its argument, restriction keeps every second pixel, prolongation
  repeats each pixel, a fresh tensor holds 7 everywhere. The concrete runs below use it.
\<close>

definition identity_collaborators :: collaborators where
  "identity_collaborators =
     \<lparr>new_data = (\<lambda>y x. 7),
      new_rho = (\<lambda>i. 0),
      new_short = (\<lambda>y x. 0),
      USE_CBLAS = False,
      dgesv = (\<lambda>N A B. (0, B)),
      buildOperator = (\<lambda>N rho lambda type b. (\<lambda>i j. if i = j then 1 else 0, rho)),
      gaussSeidel = (\<lambda>x b rho lambda type.
         (\<lambda>i j. if 0 < i \<and> i + 1 < size_0 x \<and> 0 < j \<and> j + 1 < size_1 x
                then get b i j else get x i j, rho)),
      myMultiply = (\<lambda>x temp rho lambda type. (get x, rho)),
      restriction = (\<lambda>temp rhat i j. get temp (2 * i) (2 * j)),
      project = (\<lambda>xhat xcorr i j. get xhat (i div 2) (j div 2)),
      ipRescaleGray = (\<lambda>t. (True, \<lambda>y x. \<lfloor>get t y x\<rfloor>))\<rparr>"

definition constant_image :: "nat \<Rightarrow> nat \<Rightarrow> real \<Rightarrow> DoubleTensor" where
  "constant_image h w v = \<lparr>size_0 = h, size_1 = w, get = in_sizes h w (\<lambda>y x. v)\<rparr>"

definition instance_at :: "int \<Rightarrow> nat \<Rightarrow> nat \<Rightarrow> ipVcycle" where
  "instance_at n h w =
     \<lparr>this_n_grids = n, this_height = h, this_width = w, lambda_option = 5,
      n_grids_option = n, type_option = 1, m_output = None\<rparr>"

section \<open>The coarsest-level system of a call\<close>

text \<open>
  The instance and the right-hand side that reach the coarsest level after \<open>k\<close> ways
  down, and the status \<^verbatim>\<open>dgesv_\<close> reports for the system \<^verbatim>\<open>mgv\<close> builds from them
  (lines 205 to 224).
\<close>

fun coarsest_system ::
  "collaborators \<Rightarrow> nat \<Rightarrow> ipVcycle \<Rightarrow> DoubleTensor \<Rightarrow> DoubleTensor \<Rightarrow> real \<Rightarrow> int
     \<Rightarrow> ipVcycle \<times> DoubleTensor" where
  "coarsest_system mg 0 st x_v b_v lambda type = (st, b_v)"
| "coarsest_system mg (Suc k) st x_v b_v lambda type =
     (case mgv_down mg st x_v b_v lambda type (new_rho mg) of
        (x_v1, rho2, st1, zero, rhat) \<Rightarrow> coarsest_system mg k st1 zero rhat lambda type)"

definition dgesv_status :: "collaborators \<Rightarrow> ipVcycle \<Rightarrow> DoubleTensor \<Rightarrow> real \<Rightarrow> int \<Rightarrow> int" where
  "dgesv_status mg st b_v lambda type =
     (let N = this_width st * this_height st;
          result = new_DoubleTensor mg (this_height st) (this_width st)
      in fst (direct_solver mg N (fst (buildOperator mg N (new_rho mg) lambda type b_v))
                (get (copy result b_v))))"

definition coarsest_status ::
  "collaborators \<Rightarrow> ipVcycle \<Rightarrow> DoubleTensor \<Rightarrow> DoubleTensor \<Rightarrow> real \<Rightarrow> int \<Rightarrow> int \<Rightarrow> int" where
  "coarsest_status mg st x_v b_v lambda level type =
     (case coarsest_system mg (nat (this_n_grids st - 1 - level)) st x_v b_v lambda type of
        (stc, bc) \<Rightarrow> dgesv_status mg stc bc lambda type)"



section \<open>The V-cycle in the specification's words\<close>

text \<open>
  Fields of the specification are tensors; its operations on them are those of the
  collaborators, each on a fresh destination of the size the specification gives.
\<close>

definition zero_field :: "nat \<Rightarrow> nat \<Rightarrow> DoubleTensor" where
  "zero_field h w = \<lparr>size_0 = h, size_1 = w, get = (\<lambda>y x. 0)\<rparr>"

definition field_minus :: "DoubleTensor \<Rightarrow> DoubleTensor \<Rightarrow> DoubleTensor" where
  "field_minus a b =
     \<lparr>size_0 = size_0 a, size_1 = size_1 a,
      get = in_sizes (size_0 a) (size_1 a) (\<lambda>y x. get a y x - get b y x)\<rparr>"

definition field_plus :: "DoubleTensor \<Rightarrow> DoubleTensor \<Rightarrow> DoubleTensor" where
  "field_plus a b =
     \<lparr>size_0 = size_0 a, size_1 = size_1 a,
      get = in_sizes (size_0 a) (size_1 a) (\<lambda>y x. get a y x + get b y x)\<rparr>"

text \<open>Smoother: \<open>relax(x, rhs, coefficients)\<close> gives \<open>x'\<close> (here with the coefficient set).\<close>

definition spec_relax ::
  "collaborators \<Rightarrow> DoubleTensor \<Rightarrow> DoubleTensor \<Rightarrow> coeffs \<Rightarrow> real \<Rightarrow> int
     \<Rightarrow> DoubleTensor \<times> coeffs" where
  "spec_relax mg x rhs c lambda type =
     (dataW x (fst (gaussSeidel mg x rhs c lambda type)),
      snd (gaussSeidel mg x rhs c lambda type))"

text \<open>Matrix-free multiplier: \<open>y\<close> "has the same dimensions as \<open>x\<close>".\<close>

definition spec_apply ::
  "collaborators \<Rightarrow> DoubleTensor \<Rightarrow> coeffs \<Rightarrow> real \<Rightarrow> int \<Rightarrow> DoubleTensor \<times> coeffs" where
  "spec_apply mg x c lambda type =
     (let y0 = new_DoubleTensor mg (size_0 x) (size_1 x)
      in (dataW y0 (fst (myMultiply mg x y0 c lambda type)),
          snd (myMultiply mg x y0 c lambda type)))"

text \<open>Restriction: "coarse dimensions = fine dimensions / 2".\<close>

definition spec_restrict :: "collaborators \<Rightarrow> DoubleTensor \<Rightarrow> DoubleTensor" where
  "spec_restrict mg fine =
     (let coarse0 = new_DoubleTensor mg (size_0 fine div 2) (size_1 fine div 2)
      in dataW coarse0 (restriction mg fine coarse0))"

text \<open>Prolongation: "fine dimensions = coarse dimensions x 2".\<close>

definition spec_prolong :: "collaborators \<Rightarrow> DoubleTensor \<Rightarrow> DoubleTensor" where
  "spec_prolong mg coarse =
     (let fine0 = new_DoubleTensor mg (size_0 coarse * 2) (size_1 coarse * 2)
      in dataW fine0 (project mg coarse fine0))"

text \<open>
  Steps 1 to 3 of the recursive case: pre-smooth the guess against the right-hand side,
  residual = rhs - Multiply(smoothed guess), restrict the residual.
\<close>

definition spec_restricted_residual ::
  "collaborators \<Rightarrow> DoubleTensor \<Rightarrow> DoubleTensor \<Rightarrow> real \<Rightarrow> int \<Rightarrow> DoubleTensor" where
  "spec_restricted_residual mg guess rhs lambda type =
     (let (smoothed, c1) = spec_relax mg guess rhs (new_rho mg) lambda type;
          (applied, c2) = spec_apply mg smoothed c1 lambda type;
          residual = field_minus rhs applied
      in spec_restrict mg residual)"

text \<open>
  Steps 5 to 8, on the correction the recursion of step 4 returned: prolong it, new
  estimate = pre-smoothed guess + prolonged correction, post-smooth, return.
\<close>

definition spec_new_estimate ::
  "collaborators \<Rightarrow> DoubleTensor \<Rightarrow> DoubleTensor \<Rightarrow> real \<Rightarrow> int \<Rightarrow> DoubleTensor
     \<Rightarrow> DoubleTensor" where
  "spec_new_estimate mg guess rhs lambda type correction_coarse =
     (let (smoothed, c1) = spec_relax mg guess rhs (new_rho mg) lambda type;
          (applied, c2) = spec_apply mg smoothed c1 lambda type;
          prolonged = spec_prolong mg correction_coarse;
          new_estimate = field_plus smoothed prolonged
      in fst (spec_relax mg new_estimate rhs c2 lambda type))"

text \<open>
  The recursive case as a whole, step 4 in the middle: the recursion on a zero field and
  the restricted residual, one level down.
\<close>

definition spec_recursive_case ::
  "collaborators \<Rightarrow> ipVcycle \<Rightarrow> DoubleTensor \<Rightarrow> DoubleTensor \<Rightarrow> real \<Rightarrow> int \<Rightarrow> int
     \<Rightarrow> (error + DoubleTensor \<times> ipVcycle) option" where
  "spec_recursive_case mg st guess rhs lambda level type =
     (let restricted = spec_restricted_residual mg guess rhs lambda type;
          coarse = st\<lparr>this_width := size_1 restricted, this_height := size_0 restricted\<rparr>
      in case mgv mg coarse (zero_field (size_0 restricted) (size_1 restricted)) restricted
                lambda (level + 1) type of
           None \<Rightarrow> None
         | Some (Inl e) \<Rightarrow> Some (Inl e)
         | Some (Inr (correction_coarse, st')) \<Rightarrow>
             Some (Inr (spec_new_estimate mg guess rhs lambda type correction_coarse, st)))"

text \<open>
  The terminal case: the direct solver on (matrix, rhs), then "force all boundary pixels
  (first/last row, first/last column) to exactly 0".
\<close>

definition spec_boundary :: "nat \<Rightarrow> nat \<Rightarrow> nat \<Rightarrow> nat \<Rightarrow> bool" where
  "spec_boundary height width y x =
     (int y = 0 \<or> int y = int height - 1 \<or> int x = 0 \<or> int x = int width - 1)"

definition spec_direct_solve ::
  "collaborators \<Rightarrow> DoubleTensor \<Rightarrow> real \<Rightarrow> int \<Rightarrow> error + DoubleTensor" where
  "spec_direct_solve mg rhs lambda type =
     (let H = size_0 rhs;
          W = size_1 rhs;
          A = fst (buildOperator mg (W * H) (new_rho mg) lambda type rhs);
          (info, solved) = direct_solver mg (W * H) A (in_sizes H W (get rhs))
      in if info \<noteq> 0 then Inl (LapackError info)
         else Inr \<lparr>size_0 = H, size_1 = W,
                   get = in_sizes H W
                     (\<lambda>y x. if spec_boundary H W y x then 0 else solved y x)\<rparr>)"

section \<open>Concrete inputs\<close>

definition outlier_5x5 :: DoubleTensor where
  "outlier_5x5 = \<lparr>size_0 = 5, size_1 = 5,
     get = in_sizes 5 5 (\<lambda>y x. if y = 2 \<and> x = 2 then 26 else 1)\<rparr>"

definition clipped_5x5 :: DoubleTensor where
  "clipped_5x5 = \<lparr>size_0 = 5, size_1 = 5,
     get = in_sizes 5 5 (\<lambda>y x. if y = 2 \<and> x = 2 then 22 else 1)\<rparr>"

definition gray_4x4 :: Tensor where
  "gray_4x4 = \<lparr>nDimension = 3, getDatatype = Short,
     sizes = (\<lambda>i. if i = 0 then 4 else if i = 1 then 4 else 1),
     short_data = (\<lambda>y x. 5)\<rparr>"

definition gray_1x1 :: Tensor where
  "gray_1x1 = \<lparr>nDimension = 3, getDatatype = Short, sizes = (\<lambda>i. 1),
     short_data = (\<lambda>y x. 5)\<rparr>"

definition rgb_4x4 :: Tensor where
  "rgb_4x4 = \<lparr>nDimension = 3, getDatatype = Short,
     sizes = (\<lambda>i. if i = 0 then 4 else if i = 1 then 4 else 3),
     short_data = (\<lambda>y x. 5)\<rparr>"


section \<open>Basic facts\<close>

lemma in_sizes_idem [simp]: "in_sizes h w (in_sizes h w p) = in_sizes h w p"
  by (auto simp: in_sizes_def fun_eq_iff)

lemma in_sizes_inside [simp]: "y < h \<Longrightarrow> x < w \<Longrightarrow> in_sizes h w p y x = p y x"
  by (simp add: in_sizes_def)

lemma dataW_sizes [simp]: "size_0 (dataW t p) = size_0 t" "size_1 (dataW t p) = size_1 t"
  by (simp_all add: dataW_def)

lemma get_dataW [simp]: "get (dataW t p) = in_sizes (size_0 t) (size_1 t) p"
  by (simp add: dataW_def)

lemma for_pixels_sizes [simp]:
  "size_0 (for_pixels h w f t) = size_0 t" "size_1 (for_pixels h w f t) = size_1 t"
  by (simp_all add: for_pixels_def)

lemma get_for_pixels:
  "y < h \<Longrightarrow> x < w \<Longrightarrow> y < size_0 t \<Longrightarrow> x < size_1 t \<Longrightarrow> get (for_pixels h w f t) y x = f y x"
  by (simp add: for_pixels_def)

lemma new_DoubleTensor_sizes [simp]:
  "size_0 (new_DoubleTensor mg h w) = h" "size_1 (new_DoubleTensor mg h w) = w"
  by (simp_all add: new_DoubleTensor_def)

lemma fill_sizes [simp]: "size_0 (fill t v) = size_0 t" "size_1 (fill t v) = size_1 t"
  by (simp_all add: fill_def)

lemma copy_sizes [simp]: "size_0 (copy t src) = size_0 t" "size_1 (copy t src) = size_1 t"
  by (simp_all add: copy_def)

lemma mgv_coarsest:
  "level = this_n_grids st - 1 \<Longrightarrow>
   mgv mg st x_v b_v lambda level type =
     Some (mgv_solve mg st b_v lambda type
             (new_DoubleTensor mg (this_height st) (this_width st)) (new_rho mg))"
  by (subst mgv.simps) simp

lemma mgv_recursive:
  "level \<noteq> this_n_grids st - 1 \<Longrightarrow>
   mgv mg st x_v b_v lambda level type =
     (case mgv_down mg st x_v b_v lambda type (new_rho mg) of
        (x_v1, rho2, st1, zero, rhat) \<Rightarrow>
          Option.bind (mgv mg st1 zero rhat lambda (level + 1) type) (\<lambda>r.
            case r of
              Inl e \<Rightarrow> Some (Inl e)
            | Inr (xhat, st2) \<Rightarrow>
                Some (Inr (mgv_up mg x_v1 b_v lambda type
                  (new_DoubleTensor mg (this_height st) (this_width st)) rho2 xhat st2))))"
  by (subst mgv.simps) simp

lemma mgv_down_parts:
  assumes "mgv_down mg st x_v b_v lambda type rho = (x_v1, rho2, st1, zero, rhat)"
  shows "st1 = st\<lparr>this_width := this_width st div 2, this_height := this_height st div 2\<rparr>"
    and "size_0 rhat = this_height st div 2" and "size_1 rhat = this_width st div 2"
    and "size_0 zero = this_height st div 2" and "size_1 zero = this_width st div 2"
    and "size_0 x_v1 = size_0 x_v" and "size_1 x_v1 = size_1 x_v"
  using assms by (auto simp: mgv_down_def Let_def split: prod.splits)

lemma mgv_up_parts:
  assumes "mgv_up mg x_v1 b_v lambda type result rho2 xhat st2 = (res, st3)"
  shows "st3 = st2\<lparr>this_width := this_width st2 * 2, this_height := this_height st2 * 2\<rparr>"
    and "size_0 res = size_0 result" and "size_1 res = size_1 result"
  using assms by (auto simp: mgv_up_def Let_def split: prod.splits)

lemma mgv_solve_parts:
  assumes "mgv_solve mg st b_v lambda type result rho = Inr (res, st')"
  shows "st' = st" and "size_0 res = size_0 result" and "size_1 res = size_1 result"
  using assms by (auto simp: mgv_solve_def Let_def split: prod.splits if_splits)

lemma mgv_recursive_Inr:
  assumes "level \<noteq> this_n_grids st - 1"
    and "mgv mg st x_v b_v lambda level type = Some (Inr (res, st'))"
  obtains x_v1 rho2 st1 zero rhat xhat st2 where
    "mgv_down mg st x_v b_v lambda type (new_rho mg) = (x_v1, rho2, st1, zero, rhat)"
    "mgv mg st1 zero rhat lambda (level + 1) type = Some (Inr (xhat, st2))"
    "mgv_up mg x_v1 b_v lambda type
       (new_DoubleTensor mg (this_height st) (this_width st)) rho2 xhat st2 = (res, st')"
proof -
  obtain x_v1 rho2 st1 zero rhat where d:
    "mgv_down mg st x_v b_v lambda type (new_rho mg) = (x_v1, rho2, st1, zero, rhat)"
    by (metis prod_cases5)
  from assms d obtain r where r: "mgv mg st1 zero rhat lambda (level + 1) type = Some r"
    and c: "(case r of Inl e \<Rightarrow> Some (Inl e)
             | Inr (xhat, st2) \<Rightarrow> Some (Inr (mgv_up mg x_v1 b_v lambda type
                 (new_DoubleTensor mg (this_height st) (this_width st)) rho2 xhat st2)))
            = Some (Inr (res, st'))"
    by (auto simp: mgv_recursive Option.bind_eq_Some_conv)
  show thesis
  proof (cases r)
    case (Inl e)
    with c show ?thesis by simp
  next
    case (Inr p)
    obtain xhat st2 where p: "p = (xhat, st2)" by (cases p)
    from c Inr p that[OF d] r show ?thesis by simp
  qed
qed

lemma mgv_result_sizes:
  assumes "mgv mg st x_v b_v lambda level type = Some (Inr (res, st'))"
  shows "size_0 res = this_height st \<and> size_1 res = this_width st"
proof (cases "level = this_n_grids st - 1")
  case True
  with assms show ?thesis by (auto simp: mgv_coarsest dest: mgv_solve_parts)
next
  case False
  from mgv_recursive_Inr[OF False assms] obtain x_v1 rho2 xhat st2 where
    "mgv_up mg x_v1 b_v lambda type
       (new_DoubleTensor mg (this_height st) (this_width st)) rho2 xhat st2 = (res, st')"
    by metis
  from mgv_up_parts(2,3)[OF this] show ?thesis by simp
qed

lemma mgv_returns:
  "level \<le> this_n_grids st - 1 \<Longrightarrow> \<exists>r. mgv mg st x_v b_v lambda level type = Some r"
proof (induction "nat (this_n_grids st - 1 - level)" arbitrary: st x_v b_v level)
  case 0
  then have "level = this_n_grids st - 1" by simp
  then show ?case by (simp add: mgv_coarsest)
next
  case (Suc k)
  then have ne: "level \<noteq> this_n_grids st - 1" by linarith
  obtain x_v1 rho2 st1 zero rhat where d:
    "mgv_down mg st x_v b_v lambda type (new_rho mg) = (x_v1, rho2, st1, zero, rhat)"
    by (metis prod_cases5)
  have n: "this_n_grids st1 = this_n_grids st" using mgv_down_parts(1)[OF d] by simp
  have "k = nat (this_n_grids st1 - 1 - (level + 1))" "level + 1 \<le> this_n_grids st1 - 1"
    using Suc.hyps(2) Suc.prems n by linarith+
  from Suc.hyps(1)[OF this] obtain r where
    "mgv mg st1 zero rhat lambda (level + 1) type = Some r" by blast
  then show ?case using ne d by (auto simp: mgv_recursive split: sum.splits)
qed

lemma mgv_state:
  assumes "mgv mg st x_v b_v lambda level type = Some r"
  shows "level \<le> this_n_grids st - 1 \<and>
   (\<forall>res st'. r = Inr (res, st') \<longrightarrow>
      st' = st\<lparr>this_width := 2 ^ nat (this_n_grids st - 1 - level)
                             * (this_width st div 2 ^ nat (this_n_grids st - 1 - level)),
               this_height := 2 ^ nat (this_n_grids st - 1 - level)
                             * (this_height st div 2 ^ nat (this_n_grids st - 1 - level))\<rparr>)"
  using assms
proof (induct mg st x_v b_v lambda level type r rule: mgv.raw_induct[rotated 1, consumes 1, case_names 1])
  case (1 mgv mg st x_v b_v lambda level type r)
  show ?case
  proof (cases "level = this_n_grids st - 1")
    case True
    with 1(2) show ?thesis by (auto dest: mgv_solve_parts)
  next
    case False
    obtain x_v1 rho2 st1 zero rhat where d:
      "mgv_down mg st x_v b_v lambda type (new_rho mg) = (x_v1, rho2, st1, zero, rhat)"
      by (metis prod_cases5)
    have st1: "st1 = st\<lparr>this_width := this_width st div 2, this_height := this_height st div 2\<rparr>"
      using mgv_down_parts(1)[OF d] .
    from 1(2) False d obtain r' where
      inner: "mgv mg st1 zero rhat lambda (level + 1) type = Some r'"
      and c: "(case r' of Inl e \<Rightarrow> Some (Inl e) | Inr (xhat, st2) \<Rightarrow>
                Some (Inr (mgv_up mg x_v1 b_v lambda type
                  (new_DoubleTensor mg (this_height st) (this_width st)) rho2 xhat st2))) = Some r"
      by (auto simp: Option.bind_eq_Some_conv)
    have r: "r = (case r' of Inl e \<Rightarrow> Inl e | Inr (xhat, st2) \<Rightarrow>
                Inr (mgv_up mg x_v1 b_v lambda type
                  (new_DoubleTensor mg (this_height st) (this_width st)) rho2 xhat st2))"
      using c by (cases r') (auto split: prod.splits)
    note both = 1(1)[OF inner]
    have n1: "this_n_grids st1 = this_n_grids st" by (simp add: st1)
    from both have lv: "level + 1 \<le> this_n_grids st - 1" unfolding n1 by blast
    from both have ih: "\<And>res st'. r' = Inr (res, st') \<Longrightarrow>
        st' = st1\<lparr>this_width := 2 ^ nat (this_n_grids st1 - 1 - (level + 1))
                             * (this_width st1 div 2 ^ nat (this_n_grids st1 - 1 - (level + 1))),
               this_height := 2 ^ nat (this_n_grids st1 - 1 - (level + 1))
                             * (this_height st1 div 2 ^ nat (this_n_grids st1 - 1 - (level + 1)))\<rparr>"
      by blast
    have k: "nat (this_n_grids st - 1 - level) = Suc (nat (this_n_grids st - 1 - (level + 1)))"
      using lv by linarith
    show ?thesis
    proof (intro conjI allI impI)
      show "level \<le> this_n_grids st - 1" using lv by simp
    next
      fix res st' assume "r = Inr (res, st')"
      with r obtain xhat st2 where r': "r' = Inr (xhat, st2)"
        and up: "mgv_up mg x_v1 b_v lambda type
                  (new_DoubleTensor mg (this_height st) (this_width st)) rho2 xhat st2 = (res, st')"
        by (auto split: sum.splits)
      show "st' = st\<lparr>this_width := 2 ^ nat (this_n_grids st - 1 - level)
                             * (this_width st div 2 ^ nat (this_n_grids st - 1 - level)),
               this_height := 2 ^ nat (this_n_grids st - 1 - level)
                             * (this_height st div 2 ^ nat (this_n_grids st - 1 - level))\<rparr>"
        unfolding k mgv_up_parts(1)[OF up] ih[OF r'] n1
        by (simp add: st1 div_mult2_eq mult.commute)
    qed
  qed
qed

lemma mgv_call_sizes:
  "mgv_call mg lambda type st x_v b_v level \<Longrightarrow>
   size_0 b_v = this_height st \<and> size_1 b_v = this_width st \<and>
   size_0 x_v = this_height st \<and> size_1 x_v = this_width st"
proof (induction rule: mgv_call.induct)
  case (line_140 st input st3 guess image_grid t_output_double)
  then show ?case by (auto simp: processInput_prepare_def Let_def)
next
  case (line_279 st x_v b_v level x_v1 rho2 st1 zero rhat)
  from mgv_down_parts[OF line_279(3)] show ?case by simp
qed

lemma restored_iff: "(2::nat) ^ k * (h div 2 ^ k) = h \<longleftrightarrow> 2 ^ k dvd h"
  by (metis dvd_mult_div_cancel dvd_triv_left)

lemma mgv_restores_state:
  assumes "mgv mg st x_v b_v lambda level type = Some (Inr (res, st'))"
    and "2 ^ nat (this_n_grids st - 1 - level) dvd this_height st"
    and "2 ^ nat (this_n_grids st - 1 - level) dvd this_width st"
  shows "st' = st"
  using mgv_state[OF assms(1)] assms(2,3) by (simp add: dvd_mult_div_cancel)

lemma fill_zero: "fill (new_DoubleTensor mg h w) 0 = zero_field h w"
  by (simp add: fill_def dataW_def new_DoubleTensor_def zero_field_def in_sizes_def)

lemma dataW_dataW [simp]: "dataW (dataW t p) q = dataW t q"
  by (simp add: dataW_def)

lemma dataW_new:
  "dataW (new_DoubleTensor mg h w) p = \<lparr>size_0 = h, size_1 = w, get = in_sizes h w p\<rparr>"
  by (simp add: dataW_def new_DoubleTensor_def)

lemma mgv_down_spec:
  assumes "size_0 b_v = this_height st" "size_1 b_v = this_width st"
    and "size_0 x_v = this_height st" "size_1 x_v = this_width st"
  shows "mgv_down mg st x_v b_v lambda type (new_rho mg) =
     (fst (spec_relax mg x_v b_v (new_rho mg) lambda type),
      snd (spec_apply mg (fst (spec_relax mg x_v b_v (new_rho mg) lambda type))
             (snd (spec_relax mg x_v b_v (new_rho mg) lambda type)) lambda type),
      st\<lparr>this_width := size_1 (spec_restricted_residual mg x_v b_v lambda type),
         this_height := size_0 (spec_restricted_residual mg x_v b_v lambda type)\<rparr>,
      zero_field (size_0 (spec_restricted_residual mg x_v b_v lambda type))
                 (size_1 (spec_restricted_residual mg x_v b_v lambda type)),
      spec_restricted_residual mg x_v b_v lambda type)"
proof -
  define h where "h = this_height st"
  define w where "w = this_width st"
  define g where "g = gaussSeidel mg x_v b_v (new_rho mg) lambda type"
  define x1 where "x1 = dataW x_v (fst g)"
  define temp0 where "temp0 = new_DoubleTensor mg h w"
  define m where "m = myMultiply mg x1 temp0 (snd g) lambda type"
  define temp1 where "temp1 = dataW temp0 (fst m)"
  define rhat0 where "rhat0 = new_DoubleTensor mg (h div 2) (w div 2)"
  define rhat where "rhat = dataW rhat0 (restriction mg (field_minus b_v temp1) rhat0)"
  have relax: "spec_relax mg x_v b_v (new_rho mg) lambda type = (x1, snd g)"
    by (simp add: spec_relax_def x1_def g_def)
  have x1_sizes: "size_0 x1 = h" "size_1 x1 = w"
    using assms(3,4) by (simp_all add: x1_def h_def w_def)
  have appl: "spec_apply mg x1 (snd g) lambda type = (temp1, snd m)"
    by (simp add: spec_apply_def x1_sizes Let_def temp1_def m_def temp0_def)
  have temp1: "temp1 = \<lparr>size_0 = h, size_1 = w, get = in_sizes h w (fst m)\<rparr>"
    by (simp add: temp1_def temp0_def dataW_new)
  have resid: "for_pixels (size_0 b_v) (size_1 b_v) (\<lambda>y x. get b_v y x - get temp1 y x) temp1
               = field_minus b_v temp1"
    using assms(1,2) unfolding temp1 h_def w_def
    by (auto simp: for_pixels_def dataW_def field_minus_def in_sizes_def fun_eq_iff)
  have fm_sizes: "size_0 (field_minus b_v temp1) = h" "size_1 (field_minus b_v temp1) = w"
    using assms(1,2) by (simp_all add: field_minus_def h_def w_def)
  have spec: "spec_restricted_residual mg x_v b_v lambda type = rhat"
    by (simp add: spec_restricted_residual_def relax appl spec_restrict_def fm_sizes Let_def
        rhat_def rhat0_def)
  have rhat_sizes: "size_0 rhat = h div 2" "size_1 rhat = w div 2"
    by (simp_all add: rhat_def rhat0_def)
  have down: "mgv_down mg st x_v b_v lambda type (new_rho mg) =
      (x1, snd m, st\<lparr>this_width := w div 2, this_height := h div 2\<rparr>,
       zero_field (h div 2) (w div 2), rhat)"
    unfolding mgv_down_def Let_def split_beta
    unfolding h_def[symmetric] w_def[symmetric] g_def[symmetric] x1_def[symmetric]
      temp0_def[symmetric] m_def[symmetric] temp1_def[symmetric] resid
      rhat0_def[symmetric] rhat_def[symmetric]
    by (simp add: fill_zero)
  show ?thesis
    unfolding spec relax appl fst_conv snd_conv down rhat_sizes ..
qed


lemma mgv_up_spec:
  assumes "size_0 x_v = this_height st" "size_1 x_v = this_width st"
    and "even (this_height st)" "even (this_width st)"
    and "size_0 xhat = this_height st div 2" "size_1 xhat = this_width st div 2"
    and "st2 = st\<lparr>this_width := this_width st div 2, this_height := this_height st div 2\<rparr>"
  shows "mgv_up mg (fst (spec_relax mg x_v b_v (new_rho mg) lambda type)) b_v lambda type
           (new_DoubleTensor mg (this_height st) (this_width st))
           (snd (spec_apply mg (fst (spec_relax mg x_v b_v (new_rho mg) lambda type))
                   (snd (spec_relax mg x_v b_v (new_rho mg) lambda type)) lambda type))
           xhat st2
         = (spec_new_estimate mg x_v b_v lambda type xhat, st)"
proof -
  define h where "h = this_height st"
  define w where "w = this_width st"
  define x1 where "x1 = fst (spec_relax mg x_v b_v (new_rho mg) lambda type)"
  define c2 where "c2 = snd (spec_apply mg x1
                     (snd (spec_relax mg x_v b_v (new_rho mg) lambda type)) lambda type)"
  define xcorr0 where "xcorr0 = new_DoubleTensor mg h w"
  define xcorr where "xcorr = dataW xcorr0 (project mg xhat xcorr0)"
  have hw: "h div 2 * 2 = h" "w div 2 * 2 = w"
    using assms(3,4) by (simp_all add: h_def w_def)
  have st2: "this_height st2 * 2 = h" "this_width st2 * 2 = w"
    "st2\<lparr>this_width := w, this_height := h\<rparr> = st"
    using hw by (simp_all add: assms(7) h_def w_def)
  have x1_sizes: "size_0 x1 = h" "size_1 x1 = w"
    using assms(1,2) by (simp_all add: x1_def spec_relax_def h_def w_def)
  have prolong: "spec_prolong mg xhat = xcorr"
    using hw assms(5,6)
    by (simp add: spec_prolong_def Let_def xcorr_def xcorr0_def h_def w_def)
  have xcorr: "xcorr = \<lparr>size_0 = h, size_1 = w, get = in_sizes h w (project mg xhat xcorr0)\<rparr>"
    by (simp add: xcorr_def xcorr0_def dataW_new)
  have plus: "for_pixels h w (\<lambda>y x. get x1 y x + get xcorr y x) xcorr0
              = field_plus x1 xcorr"
    unfolding xcorr xcorr0_def
    by (auto simp: for_pixels_def dataW_def field_plus_def in_sizes_def fun_eq_iff
        new_DoubleTensor_def x1_sizes)
  have spec: "spec_new_estimate mg x_v b_v lambda type xhat =
      fst (spec_relax mg (field_plus x1 xcorr) b_v c2 lambda type)"
    by (simp add: spec_new_estimate_def Let_def split_beta prolong x1_def c2_def)
  have up: "mgv_up mg x1 b_v lambda type (new_DoubleTensor mg h w) c2 xhat st2 =
      (fst (spec_relax mg (field_plus x1 xcorr) b_v c2 lambda type), st)"
    unfolding mgv_up_def Let_def split_beta st2
    unfolding h_def[symmetric] w_def[symmetric] xcorr0_def[symmetric] xcorr_def[symmetric] plus
    by (simp add: spec_relax_def)
  show ?thesis
    unfolding spec x1_def[symmetric] c2_def[symmetric] h_def[symmetric] w_def[symmetric] up ..
qed

lemma mgv_solve_error:
  "dgesv_status mg st b_v lambda type \<noteq> 0 \<Longrightarrow>
   mgv_solve mg st b_v lambda type (new_DoubleTensor mg (this_height st) (this_width st))
     (new_rho mg) = Inl (LapackError (dgesv_status mg st b_v lambda type))"
  by (simp add: mgv_solve_def dgesv_status_def Let_def split_beta)

lemma mgv_solve_ok:
  "dgesv_status mg st b_v lambda type = 0 \<Longrightarrow>
   \<exists>res. mgv_solve mg st b_v lambda type (new_DoubleTensor mg (this_height st) (this_width st))
     (new_rho mg) = Inr (res, st)"
  by (simp add: mgv_solve_def dgesv_status_def Let_def split_beta)

lemma mgv_outcome:
  "level \<le> this_n_grids st - 1 \<Longrightarrow>
   (if coarsest_status mg st x_v b_v lambda level type \<noteq> 0
    then mgv mg st x_v b_v lambda level type =
           Some (Inl (LapackError (coarsest_status mg st x_v b_v lambda level type)))
    else (\<exists>res st'. mgv mg st x_v b_v lambda level type = Some (Inr (res, st'))))"
proof (induction "nat (this_n_grids st - 1 - level)" arbitrary: st x_v b_v level)
  case 0
  then have l: "level = this_n_grids st - 1" by simp
  then have c: "coarsest_status mg st x_v b_v lambda level type = dgesv_status mg st b_v lambda type"
    by (simp add: coarsest_status_def)
  show ?case
    unfolding c mgv_coarsest[OF l]
    using mgv_solve_error[of mg st b_v lambda type] mgv_solve_ok[of mg st b_v lambda type]
    by auto
next
  case (Suc k)
  then have ne: "level \<noteq> this_n_grids st - 1" by linarith
  obtain x_v1 rho2 st1 zero rhat where d:
    "mgv_down mg st x_v b_v lambda type (new_rho mg) = (x_v1, rho2, st1, zero, rhat)"
    by (metis prod_cases5)
  have n: "this_n_grids st1 = this_n_grids st" using mgv_down_parts(1)[OF d] by simp
  have k: "k = nat (this_n_grids st1 - 1 - (level + 1))" and lv: "level + 1 \<le> this_n_grids st1 - 1"
    using Suc.hyps(2) Suc.prems n by linarith+
  have k': "nat (this_n_grids st - 1 - level) = Suc (nat (this_n_grids st1 - 1 - (level + 1)))"
    using Suc.hyps(2) k by simp
  have c: "coarsest_status mg st x_v b_v lambda level type =
           coarsest_status mg st1 zero rhat lambda (level + 1) type"
    by (simp add: coarsest_status_def k' d)
  note ih = Suc.hyps(1)[OF k lv, of zero rhat]
  show ?case
  proof (cases "coarsest_status mg st1 zero rhat lambda (level + 1) type = 0")
    case True
    with ih obtain xhat st2 where
      "mgv mg st1 zero rhat lambda (level + 1) type = Some (Inr (xhat, st2))" by auto
    then show ?thesis using True ne d by (simp add: c mgv_recursive split_beta)
  next
    case False
    with ih show ?thesis using ne d by (simp add: c mgv_recursive)
  qed
qed

lemma fold_add_nonneg:
  "(\<And>x. 0 \<le> f x) \<Longrightarrow> 0 \<le> acc \<Longrightarrow> (0::real) \<le> fold (\<lambda>x acc. acc + f x) xs acc"
  by (induction xs arbitrary: acc) simp_all

lemma sum_pixels_nonneg:
  assumes "\<And>y x. 0 \<le> f y x" shows "0 \<le> sum_pixels h w f"
proof -
  have "0 \<le> acc \<Longrightarrow> 0 \<le> fold (\<lambda>y acc. fold (\<lambda>x acc. acc + f y x) [0..<w] acc) ys acc"
    for ys acc
    by (induction ys arbitrary: acc) (simp_all add: fold_add_nonneg assms)
  then show ?thesis by (simp add: sum_pixels_def)
qed

lemma std_dev_nonneg: "2 \<le> size_0 data * size_1 data \<Longrightarrow> 0 \<le> std_dev data"
proof -
  assume a: "2 \<le> size_0 data * size_1 data"
  have "int 2 \<le> int (size_1 data * size_0 data)"
    using a unfolding of_nat_le_iff by (simp add: mult.commute)
  then have "0 \<le> wxh data - 1" by (simp add: wxh_def)
  then show ?thesis
    by (simp add: std_dev_def var_out_def sum_pixels_nonneg)
qed

lemma upt5: "[0..<5] = [0,1,2,3,4]" by code_simp

lemma mean5: "mean_out outlier_5x5 = 2"
  by (simp add: mean_out_def outlier_5x5_def sum_pixels_def wxh_def upt5)

lemma var5: "var_out outlier_5x5 = 25"
  by (simp add: var_out_def mean5) (simp add: outlier_5x5_def sum_pixels_def wxh_def upt5)

lemma std5: "std_dev outlier_5x5 = 5"
  unfolding std_dev_def var5 by (rule real_sqrt_unique) simp_all

lemma bounds5: "mean_plus_dxstd outlier_5x5 4 = 22" "mean_minus_dxstd outlier_5x5 4 = - 18"
  by (simp_all add: mean_plus_dxstd_def mean_minus_dxstd_def mean5 std5)

lemma cut5: "snd (cutExtremum outlier_5x5 4 0) = clipped_5x5"
  unfolding cutExtremum_def bounds5 snd_conv
  by (auto simp: outlier_5x5_def clipped_5x5_def for_pixels_def dataW_def in_sizes_def
      fun_eq_iff Let_def)

lemma mean5c: "mean_out clipped_5x5 = 46 / 25"
  by (simp add: mean_out_def clipped_5x5_def sum_pixels_def wxh_def upt5)

lemma var5c: "var_out clipped_5x5 = 441 / 25"
  by (simp add: var_out_def mean5c) (simp add: clipped_5x5_def sum_pixels_def wxh_def upt5)

lemma std5c: "std_dev clipped_5x5 = 21 / 5"
  unfolding std_dev_def var5c by (rule real_sqrt_unique) (simp_all add: power2_eq_square)


lemmas run_mgv = mgv_coarsest mgv_recursive instance_at_def mgv_solve_def mgv_down_def
  mgv_up_def identity_collaborators_def constant_image_def new_DoubleTensor_def copy_def
  dataW_def for_pixels_def in_sizes_def fill_def is_on_boundary_def direct_solver_def Let_def

lemmas run_spec = spec_recursive_case_def spec_restricted_residual_def spec_new_estimate_def
  spec_relax_def spec_apply_def spec_restrict_def spec_prolong_def field_minus_def
  field_plus_def zero_field_def

lemma mgv_solve_pixels:
  assumes "mgv_solve mg st b_v lambda type
             (new_DoubleTensor mg (this_height st) (this_width st)) (new_rho mg) = Inr (res, st')"
    and "size_0 b_v = this_height st" "size_1 b_v = this_width st"
    and "y < size_0 b_v" "x < size_1 b_v"
  shows "get res y x =
     (if is_on_boundary (size_1 b_v) x y then 0
      else snd (direct_solver mg (this_width st * this_height st)
                  (fst (buildOperator mg (this_width st * this_height st) (new_rho mg)
                          lambda type b_v))
                  (in_sizes (size_0 b_v) (size_1 b_v) (get b_v))) y x)"
  using assms
  by (auto simp: mgv_solve_def Let_def split_beta copy_def dataW_def new_DoubleTensor_def
      for_pixels_def in_sizes_def split: if_splits)

lemma outlier_is_a_final_result:
  "build_final_result 5 5
     \<lparr>size_0 = 5, size_1 = 5, get = (\<lambda>y x. if y = 2 \<and> x = 2 then 26 else 1)\<rparr>
     (constant_image 5 5 1) (new_DoubleTensor mg 5 5) = outlier_5x5"
  by (auto simp: build_final_result_def for_pixels_def dataW_def new_DoubleTensor_def
      constant_image_def outlier_5x5_def in_sizes_def IS_NEAR_def fun_eq_iff)

lemma mgv_single_grid:
  "this_n_grids st = 1 \<Longrightarrow>
   mgv mg st x_v b_v lambda 0 type =
     Some (mgv_solve mg st b_v lambda type
             (new_DoubleTensor mg (this_height st) (this_width st)) (new_rho mg))"
  by (simp add: mgv_coarsest)

lemma mgv_solve_square:
  assumes "size_0 b_v = this_height st" "size_1 b_v = this_width st"
    and "this_height st = this_width st"
  shows "mgv_solve mg st b_v lambda type
           (new_DoubleTensor mg (this_height st) (this_width st)) (new_rho mg)
         = map_sum id (\<lambda>res. (res, st)) (spec_direct_solve mg b_v lambda type)"
  using assms
  by (auto simp: mgv_solve_def spec_direct_solve_def Let_def split_beta copy_def dataW_def
      new_DoubleTensor_def for_pixels_def in_sizes_def fun_eq_iff is_on_boundary_def
      spec_boundary_def)

lemma first_call_runs_processInput:
  assumes "checkInput input = True" and "m_output st = None"
  shows "process mg st input = processInput mg (snd (allocateOutput mg st input)) input"
  using assms by (simp add: allocateOutput_def process_def split_beta)

lemma second_call_rejects:
  assumes "m_output st = Some out" and "nDimension out = 3"
    and "sizes out 0 = sizes input 0" "sizes out 1 = sizes input 1" "sizes out 2 = sizes input 2"
    and "sizes input 2 \<noteq> 1" and "checkInput input = True"
  shows "process mg st input = Some (Inr (False, st))"
  using assms by (simp add: allocateOutput_def process_def)

section \<open>The boundary of the returned field\<close>

text \<open>
  C1. Every boundary pixel of the field \<^verbatim>\<open>mgv\<close> returns (first row, last row, first
  column, last column) is exactly 0; in particular the coarsest level clears the boundary
  after the direct solve, for images of any height and width.

  Line 234 compares \<^verbatim>\<open>y\<close> with \<^verbatim>\<open>width - 1\<close>, so the row that is cleared is row
  \<^verbatim>\<open>width - 1\<close> and not the last one (\<open>mgv_solve_pixels\<close>). On a right-hand side of 4
  rows and 3 columns that holds 5 everywhere, with one grid, the last row of the returned
  field is 0, 5, 0: pixel (3, 1) keeps the value the solver left, and pixel (2, 1), which
  is not on the boundary, is cleared.
\<close>

theorem coarsest_level_leaves_last_row:
  "map_option (map_sum id (\<lambda>(res, st). [get res 3 0, get res 3 1, get res 3 2, get res 2 1]))
     (mgv identity_collaborators (instance_at 1 4 3) (constant_image 4 3 0)
        (constant_image 4 3 5) 5 0 1)
   = Some (Inr [0, 5, 0, 0])"
  by (simp add: run_mgv)

section \<open>The size of the returned field\<close>

text \<open>
  C2. For every call \<^verbatim>\<open>mgv(guess, rhs, lambda, level, type)\<close> the returned field has
  exactly the height and the width of \<^verbatim>\<open>rhs\<close>.

  The calls are those \<open>mgv_call\<close> lists: the call of \<^verbatim>\<open>processInput\<close> and the recursive
  calls below it. The result is allocated with \<^verbatim>\<open>height_\<close> and \<^verbatim>\<open>width_\<close>, which are
  the sizes of \<^verbatim>\<open>rhs\<close> at each of these calls (\<open>mgv_call_sizes\<close>).
\<close>

theorem mgv_result_same_size_as_rhs:
  assumes "mgv_call mg lambda type st x_v b_v level"
    and "mgv mg st x_v b_v lambda level type = Some (Inr (res, st'))"
  shows "size_0 res = size_0 b_v \<and> size_1 res = size_1 b_v"
  using mgv_call_sizes[OF assms(1)] mgv_result_sizes[OF assms(2)] by simp

text \<open>
  The call of \<^verbatim>\<open>processInput\<close> on a 4 by 4 image with two grids returns a 4 by 4 field.
\<close>

theorem mgv_result_same_size_as_rhs_witness:
  "(case processInput_prepare identity_collaborators (instance_at 2 0 0) gray_4x4 of
      (st3, guess, image_grid, t_output_double) \<Rightarrow>
        mgv_call identity_collaborators 5 1 st3 guess image_grid 0 \<and>
        (case mgv identity_collaborators st3 guess image_grid 5 0 1 of
           Some (Inr (res, st')) \<Rightarrow>
             size_0 image_grid = 4 \<and> size_1 image_grid = 4 \<and>
             size_0 res = size_0 image_grid \<and> size_1 res = size_1 image_grid
         | _ \<Rightarrow> False))"
proof -
  obtain st3 guess image_grid t where
    p: "processInput_prepare identity_collaborators (instance_at 2 0 0) gray_4x4
        = (st3, guess, image_grid, t)"
    by (metis prod_cases4)
  have c: "mgv_call identity_collaborators 5 1 st3 guess image_grid 0"
    by (rule mgv_call.line_140[OF p]) (simp_all add: instance_at_def)
  have s: "this_n_grids st3 = 2" "size_0 image_grid = 4" "size_1 image_grid = 4"
    using p by (auto simp: processInput_prepare_def Let_def instance_at_def gray_4x4_def)
  then have "0 \<le> this_n_grids st3 - 1" by simp
  from mgv_outcome[OF this, of identity_collaborators guess image_grid 5 1]
  obtain res st' where
    m: "mgv identity_collaborators st3 guess image_grid 5 0 1 = Some (Inr (res, st'))"
    by (auto simp: coarsest_status_def dgesv_status_def direct_solver_def
        identity_collaborators_def split: prod.splits if_splits)
  from mgv_result_same_size_as_rhs[OF c m] show ?thesis
    by (simp add: p c m s)
qed

section \<open>Inputs with several channels\<close>

text \<open>
  C3. An input whose third size is not 1 is rejected at the entry point, before any grid
  work begins.

  \<^verbatim>\<open>checkInput\<close> does not look at the third size, and \<^verbatim>\<open>allocateOutput\<close> tests it
  ("Accept only gray images", line 86) only after the branch that allocates the output
  has returned true. On an instance that has no output yet, every 3-D tensor of shorts
  is therefore accepted by both, whatever its channel count, and \<^verbatim>\<open>processInput\<close> runs
  (\<open>first_call_runs_processInput\<close>). The same input is rejected once an output of its
  sizes exists (\<open>second_call_rejects\<close>).
\<close>

theorem first_call_accepts_any_channel_count:
  assumes "nDimension input = 3" and "getDatatype input = Short" and "m_output st = None"
  shows "checkInput input = True \<and> fst (allocateOutput mg st input) = True"
  using assms by (simp add: checkInput_def allocateOutput_def)

text \<open>
  A 4 by 4 image with 3 channels, given to an instance without output.
\<close>

theorem first_call_accepts_any_channel_count_witness:
  "nDimension rgb_4x4 = 3 \<and> getDatatype rgb_4x4 = Short \<and>
   m_output (instance_at 1 0 0) = None \<and> sizes rgb_4x4 2 = 3 \<and>
   checkInput rgb_4x4 = True \<and>
   fst (allocateOutput identity_collaborators (instance_at 1 0 0) rgb_4x4) = True"
proof -
  have a: "nDimension rgb_4x4 = 3" "getDatatype rgb_4x4 = Short" "sizes rgb_4x4 2 = 3"
    by (simp_all add: rgb_4x4_def)
  have b: "m_output (instance_at 1 0 0) = None" by (simp add: instance_at_def)
  from first_call_accepts_any_channel_count[OF a(1,2) b, of identity_collaborators]
  show ?thesis by (simp add: a b)
qed

section \<open>The cut of the extreme values\<close>

text \<open>
  C4. After \<^verbatim>\<open>cutExtremum\<close> with \<open>k = 4\<close> every value of the field lies within
  \<open>[mean - k std, mean + k std]\<close>, with the mean and the sample standard deviation
  computed on the clipped field itself.

  The bounds the cut uses are those of the field before the cut. On the 5 by 5 field that
  holds 1 everywhere and 26 in the middle (the final result of an image whose middle
  pixel is 26 times the light, \<open>outlier_is_a_final_result\<close>) the mean is 2 and the
  deviation 5, the middle pixel is cut to 22, and the clipped field has mean 46/25 and
  deviation 21/5: its own upper bound is 466/25, below 22.
\<close>

theorem cutExtremum_not_within_own_bounds:
  "build_final_result 5 5
     \<lparr>size_0 = 5, size_1 = 5, get = (\<lambda>y x. if y = 2 \<and> x = 2 then 26 else 1)\<rparr>
     (constant_image 5 5 1) (new_DoubleTensor identity_collaborators 5 5) = outlier_5x5 \<and>
   mean_plus_dxstd (snd (cutExtremum outlier_5x5 4 0)) 4
     < get (snd (cutExtremum outlier_5x5 4 0)) 2 2"
  unfolding cut5 outlier_is_a_final_result
  by (simp add: mean_plus_dxstd_def mean5c std5c) (simp add: clipped_5x5_def)

text \<open>
  C4, as amended. After \<^verbatim>\<open>cutExtremum\<close> on a field of at least 2 pixels, with a
  distribution width that is not negative (4 in \<^verbatim>\<open>processInput\<close>), every value of the
  field lies within \<open>[mean - k std, mean + k std]\<close>, where the mean and the sample standard
  deviation are those of the field before the cut.
\<close>

theorem cutExtremum_within_bounds_of_input:
  assumes "2 \<le> size_0 data * size_1 data" and "0 \<le> distribution_width"
    and "y < size_0 data" and "x < size_1 data"
  shows "mean_minus_dxstd data distribution_width
           \<le> get (snd (cutExtremum data distribution_width p)) y x \<and>
         get (snd (cutExtremum data distribution_width p)) y x
           \<le> mean_plus_dxstd data distribution_width"
proof -
  have "0 \<le> real_of_int distribution_width * std_dev data"
    using std_dev_nonneg[OF assms(1)] assms(2) by simp
  then have "mean_minus_dxstd data distribution_width \<le> mean_plus_dxstd data distribution_width"
    by (simp add: mean_minus_dxstd_def mean_plus_dxstd_def)
  then show ?thesis
    using assms(3,4) by (simp add: cutExtremum_def get_for_pixels Let_def)
qed

text \<open>
  On the 5 by 5 field above the bounds are -18 and 22, and the middle pixel ends at 22.
\<close>

theorem cutExtremum_within_bounds_of_input_witness:
  "(2::nat) \<le> size_0 outlier_5x5 * size_1 outlier_5x5 \<and> (0::int) \<le> 4 \<and>
   2 < size_0 outlier_5x5 \<and> 2 < size_1 outlier_5x5 \<and>
   mean_minus_dxstd outlier_5x5 4 = - 18 \<and> mean_plus_dxstd outlier_5x5 4 = 22 \<and>
   - 18 \<le> get (snd (cutExtremum outlier_5x5 4 0)) 2 2 \<and>
   get (snd (cutExtremum outlier_5x5 4 0)) 2 2 \<le> 22"
proof -
  have h: "(2::nat) \<le> size_0 outlier_5x5 * size_1 outlier_5x5" "(0::int) \<le> 4"
    "2 < size_0 outlier_5x5" "2 < size_1 outlier_5x5"
    by (simp_all add: outlier_5x5_def)
  from cutExtremum_within_bounds_of_input[OF h, of 0] show ?thesis
    by (simp add: h bounds5)
qed

section \<open>The final result before the cut\<close>

text \<open>
  C5. For every pixel of the field that lines 144 to 158 build: on the image border the
  value is 1; otherwise, if the light is within 0.01 of zero, the value is 1; otherwise
  it is image / light, so that the division is made only when the light is more than
  0.01 away from 0.
\<close>

theorem build_final_result_pixel:
  assumes "processInput_prepare mg st input = (st3, guess, image_grid, t_output_double)"
    and "y < sizes input 0" and "x < sizes input 1"
  shows "get (build_final_result (sizes input 0) (sizes input 1) image_grid light
                t_output_double) y x =
     (if y = 0 \<or> y + 1 = sizes input 0 \<or> x = 0 \<or> x + 1 = sizes input 1 then 1
      else if \<bar>get light y x\<bar> \<le> 1 / 100 then 1
      else real_of_int (short_data input y x) / get light y x)"
proof -
  have t: "size_0 t_output_double = sizes input 0" "size_1 t_output_double = sizes input 1"
    and i: "get image_grid y x = real_of_int (short_data input y x)"
    using assms by (auto simp: processInput_prepare_def Let_def)
  have b: "(int y = 0 \<or> int y = int (sizes input 0) - 1 \<or> int x = 0 \<or>
            int x = int (sizes input 1) - 1) =
           (y = 0 \<or> y + 1 = sizes input 0 \<or> x = 0 \<or> x + 1 = sizes input 1)"
    using assms(2,3) by auto
  have n: "IS_NEAR (get light y x) 0 (1 / 100) = (\<bar>get light y x\<bar> \<le> 1 / 100)"
    by (auto simp: IS_NEAR_def)
  show ?thesis
    unfolding build_final_result_def
    by (simp only: get_for_pixels[OF assms(2,3) assms(2,3)[folded t]] b n i)
qed

text \<open>
  A 4 by 4 image that holds 5 everywhere: with light 2 the border pixels (0, 1) and (3, 3)
  are 1 and the inner pixel (1, 1) is 5/2; with light 1/200 the inner pixel is 1.
\<close>

theorem build_final_result_pixel_witness:
  "(case processInput_prepare identity_collaborators (instance_at 1 0 0) gray_4x4 of
      (st3, guess, image_grid, t_output_double) \<Rightarrow>
        map (\<lambda>(y, x). get (build_final_result (sizes gray_4x4 0) (sizes gray_4x4 1) image_grid
                              (constant_image 4 4 2) t_output_double) y x)
          [(0, 1), (1, 1), (3, 3)] = [1, 5 / 2, 1] \<and>
        get (build_final_result (sizes gray_4x4 0) (sizes gray_4x4 1) image_grid
              (constant_image 4 4 (1 / 200)) t_output_double) 1 1 = 1)"
proof -
  obtain st3 guess image_grid t where
    p: "processInput_prepare identity_collaborators (instance_at 1 0 0) gray_4x4
        = (st3, guess, image_grid, t)"
    by (metis prod_cases4)
  have s: "sizes gray_4x4 0 = 4" "sizes gray_4x4 1 = 4" "short_data gray_4x4 = (\<lambda>y x. 5)"
    by (simp_all add: gray_4x4_def)
  have e: "get (build_final_result 4 4 image_grid light t) y x =
     (if y = 0 \<or> y + 1 = 4 \<or> x = 0 \<or> x + 1 = 4 then 1
      else if \<bar>get light y x\<bar> \<le> 1 / 100 then 1 else 5 / get light y x)"
    if "y < 4" "x < 4" for y x light
    using build_final_result_pixel[OF p, of y x light] that unfolding s by simp
  show ?thesis
    unfolding p s by (simp add: e constant_image_def)
qed

section \<open>The recursive case\<close>

text \<open>
  C6. In the recursive case \<^verbatim>\<open>mgv\<close> performs exactly these steps in order: pre-smooth
  the guess against rhs; residual = rhs minus the operator applied to the smoothed guess;
  restrict the residual to half width and half height; recurse with a zero guess on the
  restricted residual at level + 1; prolong the coarse correction to the fine resolution;
  add the prolonged correction to the pre-smoothed guess; post-smooth the sum against rhs;
  return it.

  With an odd size the halves are rounded down: on a 3 by 3 grid with two grids the
  correction is prolonged to 2 by 2 and added over 2 by 2 pixels, so that pixel (2, 2) of
  the returned field still holds what the allocation left there (7 in
  \<open>identity_collaborators\<close>), where the steps of the specification give 0 + 0, and
  \<^verbatim>\<open>height_\<close> is 2 on return.
\<close>

theorem odd_size_recursive_case_differs:
  "map_option (map_sum id (\<lambda>(res, st). (get res 2 2, this_height st)))
     (mgv identity_collaborators (instance_at 2 3 3) (constant_image 3 3 0)
        (constant_image 3 3 5) 5 0 1) = Some (Inr (7, 2)) \<and>
   map_option (map_sum id (\<lambda>(res, st). (get res 2 2, this_height st)))
     (spec_recursive_case identity_collaborators (instance_at 2 3 3) (constant_image 3 3 0)
        (constant_image 3 3 5) 5 0 1) = Some (Inr (0, 3))"
  by (simp add: run_mgv run_spec)

text \<open>
  C6, as amended. In the recursive case, when \<^verbatim>\<open>height_\<close> and \<^verbatim>\<open>width_\<close> are the sizes of
  rhs and of the guess and both are divisible by 2 to the power \<^verbatim>\<open>n_grids_ - 1 - level\<close>
  (every level down to the coarsest halves exactly), \<^verbatim>\<open>mgv\<close> performs exactly the steps
  above, in that order, and leaves the instance as it found it.
\<close>

theorem mgv_recursive_case_steps:
  assumes "level \<noteq> this_n_grids st - 1"
    and "size_0 b_v = this_height st" "size_1 b_v = this_width st"
    and "size_0 x_v = this_height st" "size_1 x_v = this_width st"
    and "2 ^ nat (this_n_grids st - 1 - level) dvd this_height st"
    and "2 ^ nat (this_n_grids st - 1 - level) dvd this_width st"
  shows "mgv mg st x_v b_v lambda level type =
         spec_recursive_case mg st x_v b_v lambda level type"
proof -
  define rhat where "rhat = spec_restricted_residual mg x_v b_v lambda type"
  define st1 where "st1 = st\<lparr>this_width := size_1 rhat, this_height := size_0 rhat\<rparr>"
  define inner where "inner = mgv mg st1 (zero_field (size_0 rhat) (size_1 rhat)) rhat
                        lambda (level + 1) type"
  note down = mgv_down_spec[OF assms(2-5), of mg lambda type, folded rhat_def, folded st1_def]
  have rhat_sizes: "size_0 rhat = this_height st div 2" "size_1 rhat = this_width st div 2"
    using assms(2,3)
    by (simp_all add: rhat_def spec_restricted_residual_def spec_restrict_def Let_def split_beta
        field_minus_def)
  have st1: "st1 = st\<lparr>this_width := this_width st div 2, this_height := this_height st div 2\<rparr>"
    by (simp add: st1_def rhat_sizes)
  show ?thesis
  proof (cases inner)
    case None
    then show ?thesis
      using assms(1) by (simp add: mgv_recursive down spec_recursive_case_def Let_def
          rhat_def[symmetric] st1_def[symmetric] inner_def[symmetric])
  next
    case (Some r)
    note inner = Some[unfolded inner_def]
    from mgv_state[OF inner] have lv: "level + 1 \<le> this_n_grids st - 1"
      by (simp add: st1)
    then have k: "nat (this_n_grids st - 1 - level) = Suc (nat (this_n_grids st1 - 1 - (level + 1)))"
      by (simp add: st1)
    have ev: "even (this_height st)" "even (this_width st)"
      using assms(6,7) unfolding k by (auto dest: dvd_mult_left)
    show ?thesis
    proof (cases r)
      case (Inl e)
      then show ?thesis
        using assms(1) Some by (simp add: mgv_recursive down spec_recursive_case_def Let_def
            rhat_def[symmetric] st1_def[symmetric] inner_def[symmetric])
    next
      case (Inr p)
      obtain xhat st2 where p: "p = (xhat, st2)" by (cases p)
      have i: "mgv mg st1 (zero_field (size_0 rhat) (size_1 rhat)) rhat lambda (level + 1) type
               = Some (Inr (xhat, st2))"
        using inner Inr p by simp
      have d1: "2 ^ nat (this_n_grids st1 - 1 - (level + 1)) dvd this_height st1"
               "2 ^ nat (this_n_grids st1 - 1 - (level + 1)) dvd this_width st1"
        using assms(6,7) ev unfolding k by (auto simp: st1 elim!: evenE)
      have st2: "st2 = st1" using mgv_restores_state[OF i d1] .
      have xs: "size_0 xhat = this_height st div 2" "size_1 xhat = this_width st div 2"
        using mgv_result_sizes[OF i] by (simp_all add: st1)
      note up = mgv_up_spec[OF assms(4,5) ev xs st2[unfolded st1], of mg b_v lambda type]
      show ?thesis
        using assms(1) Some Inr p
        by (simp add: mgv_recursive down spec_recursive_case_def Let_def
            rhat_def[symmetric] st1_def[symmetric] inner_def[symmetric] up)
    qed
  qed
qed

text \<open>
  A 4 by 4 grid with two grids: both sides return the same field, 5 at the inner pixel
  (1, 1) and 0 at the corner (3, 3).
\<close>

theorem mgv_recursive_case_steps_witness:
  "(0::int) \<noteq> this_n_grids (instance_at 2 4 4) - 1 \<and>
   size_0 (constant_image 4 4 5) = this_height (instance_at 2 4 4) \<and>
   size_1 (constant_image 4 4 0) = this_width (instance_at 2 4 4) \<and>
   2 ^ nat (this_n_grids (instance_at 2 4 4) - 1 - 0) dvd this_height (instance_at 2 4 4) \<and>
   mgv identity_collaborators (instance_at 2 4 4) (constant_image 4 4 0)
     (constant_image 4 4 5) 5 0 1 =
   spec_recursive_case identity_collaborators (instance_at 2 4 4) (constant_image 4 4 0)
     (constant_image 4 4 5) 5 0 1 \<and>
   map_option (map_sum id (\<lambda>(res, st). (get res 1 1, get res 3 3, this_height st)))
     (spec_recursive_case identity_collaborators (instance_at 2 4 4) (constant_image 4 4 0)
        (constant_image 4 4 5) 5 0 1) = Some (Inr (5, 0, 4))"
proof -
  have h: "(0::int) \<noteq> this_n_grids (instance_at 2 4 4) - 1"
    "size_0 (constant_image 4 4 5) = this_height (instance_at 2 4 4)"
    "size_1 (constant_image 4 4 5) = this_width (instance_at 2 4 4)"
    "size_0 (constant_image 4 4 0) = this_height (instance_at 2 4 4)"
    "size_1 (constant_image 4 4 0) = this_width (instance_at 2 4 4)"
    "2 ^ nat (this_n_grids (instance_at 2 4 4) - 1 - 0) dvd this_height (instance_at 2 4 4)"
    "2 ^ nat (this_n_grids (instance_at 2 4 4) - 1 - 0) dvd this_width (instance_at 2 4 4)"
    by (simp_all add: instance_at_def constant_image_def)
  have e: "map_option (map_sum id (\<lambda>(res, st). (get res 1 1, get res 3 3, this_height st)))
     (mgv identity_collaborators (instance_at 2 4 4) (constant_image 4 4 0)
        (constant_image 4 4 5) 5 0 1) = Some (Inr (5, 0, 4))"
    by (simp add: run_mgv)
  from mgv_recursive_case_steps[OF h, of identity_collaborators 5 1] e h show ?thesis
    by simp
qed

section \<open>A single grid\<close>

text \<open>
  C7. With \<^verbatim>\<open>n_grids = 1\<close> the call at level 0 takes the terminal branch
  (\<open>mgv_single_grid\<close>: no smoothing, restriction or prolongation), and its result is one
  direct solve of the full-resolution operator against the image, with the boundary
  pixels then forced to 0.

  The result is that of \<open>spec_direct_solve\<close> when the image is square
  (\<open>mgv_solve_square\<close>). On 4 rows and 3 columns it is not, by the test of line 234: pixel
  (3, 1) of the last row is 5 in the field \<^verbatim>\<open>mgv\<close> returns and 0 after a direct solve
  whose boundary is forced to 0.
\<close>

theorem single_grid_is_not_direct_solve:
  "map_option (map_sum id (\<lambda>(res, st). get res 3 1))
     (mgv identity_collaborators (instance_at 1 4 3) (constant_image 4 3 0)
        (constant_image 4 3 5) 5 0 1) = Some (Inr 5) \<and>
   map_sum id (\<lambda>res. get res 3 1)
     (spec_direct_solve identity_collaborators (constant_image 4 3 5) 5 1) = Inr 0"
  by (simp add: run_mgv spec_direct_solve_def spec_boundary_def)

section \<open>The fatal errors\<close>








section \<open>The members \<^verbatim>\<open>height_\<close> and \<^verbatim>\<open>width_\<close>\<close>

text \<open>
  C9. For every call of \<^verbatim>\<open>mgv\<close> that returns normally, \<^verbatim>\<open>width_\<close> and \<^verbatim>\<open>height_\<close>
  hold the same values on return as on entry: they are halved before the recursive call
  and doubled after it.

  The halving is an integer division. A 3 by 3 grid with two grids returns with both
  members at 2.
\<close>

theorem odd_size_members_not_restored:
  "map_option (map_sum id (\<lambda>(res, st'). (this_height st', this_width st')))
     (mgv identity_collaborators (instance_at 2 3 3) (constant_image 3 3 0)
        (constant_image 3 3 5) 5 0 1) = Some (Inr (2, 2)) \<and>
   (this_height (instance_at 2 3 3), this_width (instance_at 2 3 3)) = (3, 3)"
  by (simp add: run_mgv)

text \<open>
  C9, as amended. For every call of \<^verbatim>\<open>mgv\<close> that returns normally, \<^verbatim>\<open>width_\<close> and
  \<^verbatim>\<open>height_\<close> hold the same values on return as on entry exactly when both are
  divisible by 2 to the power \<^verbatim>\<open>n_grids_ - 1 - level\<close>, that is when every halving down
  to the coarsest level is exact.
\<close>

theorem mgv_restores_members:
  assumes "mgv mg st x_v b_v lambda level type = Some (Inr (res, st'))"
  shows "(this_height st' = this_height st \<and> this_width st' = this_width st) =
         (2 ^ nat (this_n_grids st - 1 - level) dvd this_height st \<and>
          2 ^ nat (this_n_grids st - 1 - level) dvd this_width st)"
  using mgv_state[OF assms] by (simp add: restored_iff)

text \<open>
  A 4 by 4 grid with two grids returns with both members at 4.
\<close>

theorem mgv_restores_members_witness:
  "(case mgv identity_collaborators (instance_at 2 4 4) (constant_image 4 4 0)
          (constant_image 4 4 5) 5 0 1 of
      Some (Inr (res, st')) \<Rightarrow>
        this_height st' = 4 \<and> this_width st' = 4 \<and>
        this_height st' = this_height (instance_at 2 4 4) \<and>
        this_width st' = this_width (instance_at 2 4 4) \<and>
        2 ^ nat (this_n_grids (instance_at 2 4 4) - 1 - 0) dvd this_height (instance_at 2 4 4)
    | _ \<Rightarrow> False)"
proof -
  have "\<exists>res st'. mgv identity_collaborators (instance_at 2 4 4) (constant_image 4 4 0)
          (constant_image 4 4 5) 5 0 1 = Some (Inr (res, st'))"
    by (simp add: run_mgv)
  then obtain res st' where m: "mgv identity_collaborators (instance_at 2 4 4)
      (constant_image 4 4 0) (constant_image 4 4 5) 5 0 1 = Some (Inr (res, st'))"
    by blast
  have d: "2 ^ nat (this_n_grids (instance_at 2 4 4) - 1 - 0) dvd this_height (instance_at 2 4 4)"
    "2 ^ nat (this_n_grids (instance_at 2 4 4) - 1 - 0) dvd this_width (instance_at 2 4 4)"
    "this_height (instance_at 2 4 4) = 4" "this_width (instance_at 2 4 4) = 4"
    by (simp_all add: instance_at_def)
  from mgv_restores_members[OF m] d show ?thesis
    unfolding m by simp
qed

section \<open>The denominators of \<^verbatim>\<open>cutExtremum\<close>\<close>

text \<open>
  C10. \<^verbatim>\<open>cutExtremum\<close> divides the sum by \<^verbatim>\<open>wxh\<close> for the mean and the sum of squares
  by \<^verbatim>\<open>wxh - 1\<close> for the variance, where \<^verbatim>\<open>wxh\<close> is width times height. Both
  denominators are non-zero exactly for the fields of at least 2 pixels. The entry point
  does not enforce that size: \<^verbatim>\<open>checkInput\<close> and \<^verbatim>\<open>allocateOutput\<close> accept a gray image
  of shorts of any size, and the field \<^verbatim>\<open>processInput\<close> hands to \<^verbatim>\<open>cutExtremum\<close> has
  the sizes of the image.
\<close>

theorem cutExtremum_denominators:
  assumes "nDimension input = 3" and "getDatatype input = Short" and "sizes input 2 = 1"
    and "processInput_prepare mg st1 input = (st3, guess, image_grid, t_output_double)"
  shows "mean_out data =
           sum_pixels (size_0 data) (size_1 data) (get data) / real_of_int (wxh data) \<and>
         var_out data =
           sum_pixels (size_0 data) (size_1 data)
             (\<lambda>y x. (get data y x - mean_out data) * (get data y x - mean_out data))
           / real_of_int (wxh data - 1) \<and>
         wxh data = int (size_1 data) * int (size_0 data) \<and>
         ((real_of_int (wxh data) \<noteq> 0 \<and> real_of_int (wxh data - 1) \<noteq> 0) =
            (2 \<le> size_1 data * size_0 data)) \<and>
         checkInput input = True \<and> fst (allocateOutput mg st input) = True \<and>
         size_0 (build_final_result (sizes input 0) (sizes input 1) image_grid light
                   t_output_double) = sizes input 0 \<and>
         size_1 (build_final_result (sizes input 0) (sizes input 1) image_grid light
                   t_output_double) = sizes input 1"
proof -
  have t: "size_0 t_output_double = sizes input 0" "size_1 t_output_double = sizes input 1"
    using assms(4) by (auto simp: processInput_prepare_def Let_def)
  have a: "checkInput input = True" "fst (allocateOutput mg st input) = True"
    using assms(1-3) by (simp_all add: checkInput_def allocateOutput_def)
  have w: "wxh data = int (size_1 data * size_0 data)"
    by (simp add: wxh_def)
  have n: "(real_of_int (wxh data) \<noteq> 0 \<and> real_of_int (wxh data - 1) \<noteq> 0) =
            (2 \<le> size_1 data * size_0 data)"
    unfolding w by (cases "size_1 data * size_0 data") auto
  show ?thesis
    using a n by (simp add: mean_out_def var_out_def wxh_def build_final_result_def t)
qed

text \<open>
  A 1 by 1 gray image passes both checks and gives a field with \<^verbatim>\<open>wxh - 1 = 0\<close>; the
  5 by 5 field has the denominators 25 and 24.
\<close>

theorem cutExtremum_denominators_witness:
  "nDimension gray_1x1 = 3 \<and> getDatatype gray_1x1 = Short \<and> sizes gray_1x1 2 = 1 \<and>
   checkInput gray_1x1 = True \<and>
   fst (allocateOutput identity_collaborators (instance_at 1 0 0) gray_1x1) = True \<and>
   (case processInput_prepare identity_collaborators
           (snd (allocateOutput identity_collaborators (instance_at 1 0 0) gray_1x1)) gray_1x1 of
      (st3, guess, image_grid, t_output_double) \<Rightarrow>
        wxh (build_final_result (sizes gray_1x1 0) (sizes gray_1x1 1) image_grid
               (constant_image 1 1 0) t_output_double) = 1 \<and>
        real_of_int (wxh (build_final_result (sizes gray_1x1 0) (sizes gray_1x1 1) image_grid
               (constant_image 1 1 0) t_output_double) - 1) = 0) \<and>
   real_of_int (wxh (constant_image 5 5 1)) = 25 \<and>
   real_of_int (wxh (constant_image 5 5 1) - 1) = 24"
proof -
  obtain st3 guess image_grid t where
    p: "processInput_prepare identity_collaborators
          (snd (allocateOutput identity_collaborators (instance_at 1 0 0) gray_1x1)) gray_1x1
        = (st3, guess, image_grid, t)"
    by (metis prod_cases4)
  have h: "nDimension gray_1x1 = 3" "getDatatype gray_1x1 = Short" "sizes gray_1x1 2 = 1"
    by (simp_all add: gray_1x1_def)
  have o: "real_of_int (wxh (constant_image 5 5 1)) = 25"
    "real_of_int (wxh (constant_image 5 5 1) - 1) = 24"
    by (simp_all add: wxh_def constant_image_def)
  from cutExtremum_denominators[OF h p, of _ "instance_at 1 0 0" "constant_image 1 1 0"]
  show ?thesis
    unfolding p using h o by (simp add: gray_1x1_def wxh_def)
qed

end
